theory Spec2Isabelle
  imports Complex_Main "HOL-Library.Sublist"
begin

section \<open>Request payloads: decoded JSON as Python objects\<close>

text \<open>
  When \<^verbatim>\<open>request.get_json()\<close> returns, it hands the handler whatever the JSON decoder
  produced: \<^verbatim>\<open>None\<close> (for the body \<^verbatim>\<open>null\<close>), a bool, an int, a float, a str, a list or a
  dict.
  \<open>JObj\<close> carries the items of the decoded dict in insertion order (its keys are distinct,
  as a dict's are). \<open>JFloat\<close> carries the value of a float; the handlers only ever test a
  float for being zero.
\<close>

datatype json =
    JNull
  | JBool bool
  | JInt int
  | JFloat real
  | JStr string
  | JArr "json list"
  | JObj "(string \<times> json) list"

text \<open>The Python exceptions the handlers can run into; Flask turns each into a 500.\<close>

datatype py_exc = TypeError | KeyError | AttributeError

text \<open>Truth value of an object, as \<^verbatim>\<open>not x\<close> and \<^verbatim>\<open>if x\<close> compute it.\<close>

fun truthy :: "json \<Rightarrow> bool" where
  "truthy JNull = False"
| "truthy (JBool b) = b"
| "truthy (JInt n) = (n \<noteq> 0)"
| "truthy (JFloat r) = (r \<noteq> 0)"
| "truthy (JStr s) = (s \<noteq> [])"
| "truthy (JArr xs) = (xs \<noteq> [])"
| "truthy (JObj kvs) = (kvs \<noteq> [])"

text \<open>
  \<^verbatim>\<open>k in data\<close> for a str \<open>k\<close>: key membership in a dict, element membership in a list,
  substring test in a str, \<^verbatim>\<open>TypeError\<close> on everything else.
\<close>

fun py_contains :: "string \<Rightarrow> json \<Rightarrow> py_exc + bool" where
  "py_contains k (JObj kvs) = Inr (map_of kvs k \<noteq> None)"
| "py_contains k (JArr xs) = Inr (JStr k \<in> set xs)"
| "py_contains k (JStr s) = Inr (sublist k s)"
| "py_contains k JNull = Inl TypeError"
| "py_contains k (JBool b) = Inl TypeError"
| "py_contains k (JInt n) = Inl TypeError"
| "py_contains k (JFloat r) = Inl TypeError"

text \<open>\<^verbatim>\<open>data[k]\<close> for a str \<open>k\<close>: only a dict can be indexed by a str.\<close>

fun py_getitem :: "json \<Rightarrow> string \<Rightarrow> py_exc + json" where
  "py_getitem (JObj kvs) k = (case map_of kvs k of None \<Rightarrow> Inl KeyError | Some v \<Rightarrow> Inr v)"
| "py_getitem JNull k = Inl TypeError"
| "py_getitem (JBool b) k = Inl TypeError"
| "py_getitem (JInt n) k = Inl TypeError"
| "py_getitem (JFloat r) k = Inl TypeError"
| "py_getitem (JStr s) k = Inl TypeError"
| "py_getitem (JArr xs) k = Inl TypeError"

text \<open>\<^verbatim>\<open>data.get(k, default)\<close>: only a dict has the method.\<close>

fun py_get :: "json \<Rightarrow> string \<Rightarrow> json \<Rightarrow> py_exc + json" where
  "py_get (JObj kvs) k d = (case map_of kvs k of None \<Rightarrow> Inr d | Some v \<Rightarrow> Inr v)"
| "py_get JNull k d = Inl AttributeError"
| "py_get (JBool b) k d = Inl AttributeError"
| "py_get (JInt n) k d = Inl AttributeError"
| "py_get (JFloat r) k d = Inl AttributeError"
| "py_get (JStr s) k d = Inl AttributeError"
| "py_get (JArr xs) k d = Inl AttributeError"

text \<open>\<^verbatim>\<open>len(x)\<close>: defined on str, list and dict.\<close>

fun py_len :: "json \<Rightarrow> py_exc + nat" where
  "py_len (JStr s) = Inr (length s)"
| "py_len (JArr xs) = Inr (length xs)"
| "py_len (JObj kvs) = Inr (length kvs)"
| "py_len JNull = Inl TypeError"
| "py_len (JBool b) = Inl TypeError"
| "py_len (JInt n) = Inl TypeError"
| "py_len (JFloat r) = Inl TypeError"

text \<open>\<^verbatim>\<open>isinstance(x, bool)\<close>.\<close>

fun isinstance_bool :: "json \<Rightarrow> bool" where
  "isinstance_bool (JBool b) = True"
| "isinstance_bool JNull = False"
| "isinstance_bool (JInt n) = False"
| "isinstance_bool (JFloat r) = False"
| "isinstance_bool (JStr s) = False"
| "isinstance_bool (JArr xs) = False"
| "isinstance_bool (JObj kvs) = False"

section \<open>The task store\<close>

text \<open>
  A task is a dict with the five keys below. \<open>id\<close> is always an int and \<open>created_at\<close> a str;
  the other three hold whatever value the payload supplied.
\<close>

record task =
  task_id :: int
  title :: json
  description :: json
  completed :: json
  created_at :: string

text \<open>The two module globals.\<close>

record store =
  tasks :: "task list"
  task_counter :: int

definition initial_store :: store where
  "initial_store =
     \<lparr>tasks =
        [\<lparr>task_id = 1, title = JStr ''Setup CI/CD Pipeline'',
          description = JStr ''Configure GitHub Actions'',
          completed = JBool False, created_at = ''2024-01-15T10:00:00Z''\<rparr>,
         \<lparr>task_id = 2, title = JStr ''Write Unit Tests'',
          description = JStr ''Create comprehensive test suite'',
          completed = JBool False, created_at = ''2024-01-15T11:00:00Z''\<rparr>],
      task_counter = 3\<rparr>"

text \<open>
  What a handler answers when it does not succeed:
  \<open>ValidationError m\<close> is \<^verbatim>\<open>jsonify({"error": m}), 400\<close>,
  \<open>NotFound i\<close> is \<^verbatim>\<open>jsonify({"error": "Task not found", "task_id": i}), 404\<close>,
  \<open>InternalError\<close> is the 500 that Flask answers when the handler raises,
  \<open>UnsupportedMediaType\<close> and \<open>BadRequest\<close> are the 415 and the 400 with which
  \<^verbatim>\<open>request.get_json()\<close> leaves the handler (neither carries a message of the handler).
\<close>

datatype error =
    ValidationError string
  | NotFound int
  | InternalError
  | UnsupportedMediaType
  | BadRequest

fun status_code :: "error \<Rightarrow> nat" where
  "status_code (ValidationError m) = 400"
| "status_code (NotFound i) = 404"
| "status_code InternalError = 500"
| "status_code UnsupportedMediaType = 415"
| "status_code BadRequest = 400"

text \<open>
  What a POST or PUT request brings as its payload, as far as \<^verbatim>\<open>request.get_json()\<close>
  (called with its defaults) tells the cases apart: a content type that is not JSON; a
  JSON content type with a body that does not parse, the empty body included; a JSON
  content type with a body that parses to a value. In the first two cases the call raises
  and the request is answered with 415 and with 400 (the tests
  \<^verbatim>\<open>test_create_task_without_content_type_returns_415\<close> and
  \<^verbatim>\<open>test_create_task_without_body_returns_400\<close> pin the two status codes); only in the third
  does the handler go on, with the decoded value.
\<close>

datatype payload = Not_json | Unparsable | Json json

fun get_json :: "payload \<Rightarrow> error + json" where
  "get_json Not_json = Inl UnsupportedMediaType"
| "get_json Unparsable = Inl BadRequest"
| "get_json (Json v) = Inr v"

text \<open>\<^verbatim>\<open>next((t for t in tasks if t['id'] == task_id), None)\<close>\<close>

definition lookup_task :: "int \<Rightarrow> store \<Rightarrow> task option" where
  "lookup_task tid st = find (\<lambda>t. task_id t = tid) (tasks st)"

subsection \<open>GET /api/tasks and GET /api/tasks/<id>\<close>

definition get_tasks :: "store \<Rightarrow> (task list \<times> nat) \<times> store" where
  "get_tasks st = ((tasks st, length (tasks st)), st)"

definition get_task :: "int \<Rightarrow> store \<Rightarrow> (error + task) \<times> store" where
  "get_task tid st =
     (case lookup_task tid st of
        None \<Rightarrow> (Inl (NotFound tid), st)
      | Some t \<Rightarrow> (Inr t, st))"

subsection \<open>POST /api/tasks\<close>

text \<open>\<^verbatim>\<open>'title' not in data or not data['title']\<close>, evaluated left to right.\<close>

definition title_missing :: "json \<Rightarrow> py_exc + bool" where
  "title_missing data =
     (case py_contains ''title'' data of
        Inl e \<Rightarrow> Inl e
      | Inr c \<Rightarrow>
          if \<not> c then Inr True
          else (case py_getitem data ''title'' of
                  Inl e \<Rightarrow> Inl e
                | Inr v \<Rightarrow> Inr (\<not> truthy v)))"

text \<open>\<^verbatim>\<open>len(data['title']) < 1\<close>\<close>

definition title_too_short :: "json \<Rightarrow> py_exc + bool" where
  "title_too_short data =
     (case py_getitem data ''title'' of
        Inl e \<Rightarrow> Inl e
      | Inr v \<Rightarrow> (case py_len v of Inl e \<Rightarrow> Inl e | Inr n \<Rightarrow> Inr (n < 1)))"

text \<open>
  The dict literal bound to \<^verbatim>\<open>new_task\<close>. \<open>now\<close> is the text that
  \<^verbatim>\<open>datetime.utcnow().isoformat()\<close> returns when the handler runs.
\<close>

definition new_task :: "string \<Rightarrow> json \<Rightarrow> store \<Rightarrow> py_exc + task" where
  "new_task now data st =
     (case py_getitem data ''title'' of
        Inl e \<Rightarrow> Inl e
      | Inr t \<Rightarrow>
     (case py_get data ''description'' (JStr '''') of
        Inl e \<Rightarrow> Inl e
      | Inr d \<Rightarrow>
     (case py_get data ''completed'' (JBool False) of
        Inl e \<Rightarrow> Inl e
      | Inr c \<Rightarrow>
          Inr \<lparr>task_id = task_counter st, title = t, description = d,
               completed = c, created_at = now @ ''Z''\<rparr>)))"

definition create_task :: "string \<Rightarrow> payload \<Rightarrow> store \<Rightarrow> (error + task) \<times> store" where
  "create_task now req st =
     (case get_json req of
        Inl x \<Rightarrow> (Inl x, st)
      | Inr data \<Rightarrow>
     (if \<not> truthy data then (Inl (ValidationError ''Request body is required''), st)
      else
     (case title_missing data of
        Inl e \<Rightarrow> (Inl InternalError, st)
      | Inr m \<Rightarrow>
          if m then (Inl (ValidationError ''Title is required''), st)
          else
     (case title_too_short data of
        Inl e \<Rightarrow> (Inl InternalError, st)
      | Inr s \<Rightarrow>
          if s then (Inl (ValidationError ''Title cannot be empty''), st)
          else
     (case new_task now data st of
        Inl e \<Rightarrow> (Inl InternalError, st)
      | Inr t \<Rightarrow>
          (Inr t, st\<lparr>tasks := tasks st @ [t], task_counter := task_counter st + 1\<rparr>))))))"

subsection \<open>PUT /api/tasks/<id>\<close>

text \<open>
  The three field blocks of the handler. Each either leaves the handler (an error answer,
  or an exception) before it assigns, or assigns its one key of the task.
\<close>

definition set_title :: "json \<Rightarrow> task \<Rightarrow> error + task" where
  "set_title data t =
     (case py_contains ''title'' data of
        Inl e \<Rightarrow> Inl InternalError
      | Inr c \<Rightarrow>
          if \<not> c then Inr t
          else (case py_getitem data ''title'' of
                  Inl e \<Rightarrow> Inl InternalError
                | Inr v \<Rightarrow>
                    if \<not> truthy v then Inl (ValidationError ''Title cannot be empty'')
                    else Inr (t\<lparr>title := v\<rparr>)))"

definition set_description :: "json \<Rightarrow> task \<Rightarrow> error + task" where
  "set_description data t =
     (case py_contains ''description'' data of
        Inl e \<Rightarrow> Inl InternalError
      | Inr c \<Rightarrow>
          if \<not> c then Inr t
          else (case py_getitem data ''description'' of
                  Inl e \<Rightarrow> Inl InternalError
                | Inr v \<Rightarrow> Inr (t\<lparr>description := v\<rparr>)))"

definition set_completed :: "json \<Rightarrow> task \<Rightarrow> error + task" where
  "set_completed data t =
     (case py_contains ''completed'' data of
        Inl e \<Rightarrow> Inl InternalError
      | Inr c \<Rightarrow>
          if \<not> c then Inr t
          else (case py_getitem data ''completed'' of
                  Inl e \<Rightarrow> Inl InternalError
                | Inr v \<Rightarrow>
                    if \<not> isinstance_bool v then Inl (ValidationError ''Completed must be a boolean'')
                    else Inr (t\<lparr>completed := v\<rparr>)))"

text \<open>
  The blocks in sequence on the task found. The second component is the task as the
  handler leaves it: when a block fails, the assignments of the blocks before it stand.
\<close>

definition update_fields :: "json \<Rightarrow> task \<Rightarrow> error option \<times> task" where
  "update_fields data t =
     (case set_title data t of
        Inl e \<Rightarrow> (Some e, t)
      | Inr t1 \<Rightarrow>
     (case set_description data t1 of
        Inl e \<Rightarrow> (Some e, t1)
      | Inr t2 \<Rightarrow>
     (case set_completed data t2 of
        Inl e \<Rightarrow> (Some e, t2)
      | Inr t3 \<Rightarrow> (None, t3))))"

text \<open>
  The handler assigns into the dict object that the search returned, which is the first
  element of the list with the id. Each element of the list is an object of its own, so
  the list afterwards is the list before with that one element in its new state.
\<close>

fun write_back :: "int \<Rightarrow> task \<Rightarrow> task list \<Rightarrow> task list" where
  "write_back tid t' [] = []"
| "write_back tid t' (t # ts) = (if task_id t = tid then t' # ts else t # write_back tid t' ts)"

definition update_task :: "int \<Rightarrow> payload \<Rightarrow> store \<Rightarrow> (error + task) \<times> store" where
  "update_task tid req st =
     (case lookup_task tid st of
        None \<Rightarrow> (Inl (NotFound tid), st)
      | Some t \<Rightarrow>
     (case get_json req of
        Inl x \<Rightarrow> (Inl x, st)
      | Inr data \<Rightarrow>
          if \<not> truthy data then (Inl (ValidationError ''Request body is required''), st)
          else (case update_fields data t of
                  (Some e, t') \<Rightarrow> (Inl e, st\<lparr>tasks := write_back tid t' (tasks st)\<rparr>)
                | (None, t') \<Rightarrow> (Inr t', st\<lparr>tasks := write_back tid t' (tasks st)\<rparr>))))"

subsection \<open>DELETE /api/tasks/<id>\<close>

definition delete_task :: "int \<Rightarrow> store \<Rightarrow> (error + int) \<times> store" where
  "delete_task tid st =
     (case lookup_task tid st of
        None \<Rightarrow> (Inl (NotFound tid), st)
      | Some t \<Rightarrow> (Inr tid, st\<lparr>tasks := filter (\<lambda>t. task_id t \<noteq> tid) (tasks st)\<rparr>))"

section \<open>Sequences of requests\<close>

text \<open>
  A create request carries the clock reading of the moment it is served; a create and an
  update request carry their payload.
\<close>

datatype request =
    List_tasks
  | Get int
  | Create string payload
  | Update int payload
  | Delete int

datatype response =
    Listed "task list" nat
  | Got task
  | Created task
  | Updated task
  | Deleted int
  | Failed error

fun handle :: "request \<Rightarrow> store \<Rightarrow> response \<times> store" where
  "handle List_tasks st = (case get_tasks st of ((ts, n), st') \<Rightarrow> (Listed ts n, st'))"
| "handle (Get tid) st =
     (case get_task tid st of (Inl e, st') \<Rightarrow> (Failed e, st') | (Inr t, st') \<Rightarrow> (Got t, st'))"
| "handle (Create now req) st =
     (case create_task now req st of
        (Inl e, st') \<Rightarrow> (Failed e, st') | (Inr t, st') \<Rightarrow> (Created t, st'))"
| "handle (Update tid req) st =
     (case update_task tid req st of
        (Inl e, st') \<Rightarrow> (Failed e, st') | (Inr t, st') \<Rightarrow> (Updated t, st'))"
| "handle (Delete tid) st =
     (case delete_task tid st of
        (Inl e, st') \<Rightarrow> (Failed e, st') | (Inr i, st') \<Rightarrow> (Deleted i, st'))"

text \<open>Serving the requests one after the other: the answers in order, and the final store.\<close>

fun serve :: "request list \<Rightarrow> store \<Rightarrow> response list \<times> store" where
  "serve [] st = ([], st)"
| "serve (r # rs) st =
     (case handle r st of (a, st') \<Rightarrow> (case serve rs st' of (as, st'') \<Rightarrow> (a # as, st'')))"

text \<open>The ids handed out by the successful creates among the answers, in order.\<close>

fun created_ids :: "response list \<Rightarrow> int list" where
  "created_ids [] = []"
| "created_ids (Created t # as) = task_id t # created_ids as"
| "created_ids (a # as) = created_ids as"

fun is_created :: "response \<Rightarrow> bool" where
  "is_created (Created t) = True"
| "is_created a = False"

fun is_deleted :: "response \<Rightarrow> bool" where
  "is_deleted (Deleted i) = True"
| "is_deleted a = False"

section \<open>The invariant of the store\<close>

text \<open>
  The ids in the list are pairwise distinct, and each is below the counter. The seeded
  store satisfies this and every handler keeps it (proved below).
\<close>

definition store_inv :: "store \<Rightarrow> bool" where
  "store_inv st \<longleftrightarrow>
     distinct (map task_id (tasks st)) \<and> (\<forall>t\<in>set (tasks st). task_id t < task_counter st)"

section \<open>Auxiliary facts\<close>

lemma lookup_task_None:
  "lookup_task tid st = None \<longleftrightarrow> (\<forall>t\<in>set (tasks st). task_id t \<noteq> tid)"
  by (auto simp: lookup_task_def find_None_iff)

lemma title_missing_False_dict:
  "title_missing data = Inr False \<Longrightarrow>
   \<exists>kvs v. data = JObj kvs \<and> map_of kvs ''title'' = Some v \<and> truthy v"
  by (cases data) (auto simp: title_missing_def split: if_splits option.splits sum.splits)

lemma truthy_len_pos: "truthy v \<Longrightarrow> py_len v = Inr n \<Longrightarrow> 0 < n"
  by (cases v) auto

lemma title_guard_dead:
  "title_missing data = Inr False \<Longrightarrow> title_too_short data \<noteq> Inr True"
  by (auto dest!: title_missing_False_dict simp: title_too_short_def
           split: sum.splits dest: truthy_len_pos)

section \<open>Creating a task\<close>


text \<open>
  C1. For a payload that is an object with a non-empty title (a title that has a length,
  and a positive one: a non-empty string in particular), create succeeds. The new task
  has the counter's value at the start of the call as its id, the clock reading followed
  by Z as created_at, the payload's description or the empty string, the payload's
  completed or false; the store afterwards has the old tasks, unchanged and in order,
  followed by the new task, and the counter one higher.
\<close>

theorem create_task_success:
  assumes "map_of kvs ''title'' = Some v" and "py_len v = Inr n" and "0 < n"
  shows "\<exists>t. create_task now (Json (JObj kvs)) st
            = (Inr t, st\<lparr>tasks := tasks st @ [t], task_counter := task_counter st + 1\<rparr>)
          \<and> task_id t = task_counter st
          \<and> title t = v
          \<and> description t = (case map_of kvs ''description'' of None \<Rightarrow> JStr '''' | Some d \<Rightarrow> d)
          \<and> completed t = (case map_of kvs ''completed'' of None \<Rightarrow> JBool False | Some c \<Rightarrow> c)
          \<and> created_at t = now @ ''Z''"
proof -
  have kv: "kvs \<noteq> []" using assms(1) by auto
  have tv: "truthy v" using assms(2,3) by (cases v) auto
  show ?thesis
    using assms kv tv
    by (auto simp: create_task_def title_missing_def title_too_short_def new_task_def
             split: option.splits)
qed

theorem create_task_success_witness:
  "\<exists>t. create_task ''2024-05-01T12:00:00'' (Json (JObj [(''title'', JStr ''New Task'')])) initial_store
            = (Inr t, initial_store\<lparr>tasks := tasks initial_store @ [t], task_counter := 4\<rparr>)
          \<and> task_id t = 3
          \<and> title t = JStr ''New Task''
          \<and> description t = JStr ''''
          \<and> completed t = JBool False
          \<and> created_at t = ''2024-05-01T12:00:00Z''"
  using create_task_success [of "[(''title'', JStr ''New Task'')]" "JStr ''New Task''" 8
           "''2024-05-01T12:00:00''" initial_store]
  by (simp add: initial_store_def)

text \<open>
  C5, as the claim states it, fails: the empty JSON object is a payload that parses and
  omits the title, and create answers it with "Request body is required", not with
  "Title is required".
\<close>

theorem create_empty_object_counterexample:
  "fst (create_task ''2024-05-01T12:00:00'' (Json (JObj [])) initial_store)
     = Inl (ValidationError ''Request body is required'')
   \<and> fst (create_task ''2024-05-01T12:00:00'' (Json (JObj [])) initial_store)
     \<noteq> Inl (ValidationError ''Title is required'')"
  by (simp add: create_task_def)

text \<open>
  C5, amended. Create answers "Request body is required" only when the payload parses to
  a falsy value (null, false, zero, the empty string, the empty array, the empty object),
  and it does so for each of these; a request with no payload at all does not get that
  answer, since decoding the payload ends the request before (with 415 or 400). For a
  payload that parses to a non-empty object without a title, create answers "Title is
  required".
\<close>

theorem create_task_body_and_title_required:
  "(fst (create_task now req st) = Inl (ValidationError ''Request body is required''))
     = (case req of Json data \<Rightarrow> \<not> truthy data | Not_json \<Rightarrow> False | Unparsable \<Rightarrow> False)
   \<and> (kvs \<noteq> [] \<and> map_of kvs ''title'' = None \<longrightarrow>
        fst (create_task now (Json (JObj kvs)) st) = Inl (ValidationError ''Title is required''))"
proof -
  have "(fst (create_task now req st) = Inl (ValidationError ''Request body is required''))
     = (case req of Json data \<Rightarrow> \<not> truthy data | Not_json \<Rightarrow> False | Unparsable \<Rightarrow> False)"
    by (cases req) (auto simp: create_task_def split: sum.splits)
  moreover have "kvs \<noteq> [] \<and> map_of kvs ''title'' = None \<longrightarrow>
        fst (create_task now (Json (JObj kvs)) st) = Inl (ValidationError ''Title is required'')"
    by (simp add: create_task_def title_missing_def)
  ultimately show ?thesis by simp
qed

theorem create_task_body_and_title_required_witness:
  "fst (create_task ''2024-05-01T12:00:00'' (Json JNull) initial_store)
     = Inl (ValidationError ''Request body is required'')
   \<and> fst (create_task ''2024-05-01T12:00:00'' Unparsable initial_store)
     \<noteq> Inl (ValidationError ''Request body is required'')
   \<and> fst (create_task ''2024-05-01T12:00:00'' (Json (JObj [(''description'', JStr ''x'')]))
          initial_store)
     = Inl (ValidationError ''Title is required'')"
  using create_task_body_and_title_required
          [of "''2024-05-01T12:00:00''" "Json JNull" initial_store "[(''description'', JStr ''x'')]"]
        create_task_body_and_title_required
          [of "''2024-05-01T12:00:00''" Unparsable initial_store "[(''description'', JStr ''x'')]"]
  by simp

text \<open>
  C8. A create that is answered with an error leaves the store as it was: the list of
  tasks, hence the count that a listing reports, and the counter are the same after the
  call as before it. (This holds for every error answer, the validation errors among them.)
\<close>

theorem create_task_failure_keeps_store:
  assumes "fst (create_task now req st) = Inl e"
  shows "snd (create_task now req st) = st
         \<and> tasks (snd (create_task now req st)) = tasks st
         \<and> task_counter (snd (create_task now req st)) = task_counter st
         \<and> fst (get_tasks (snd (create_task now req st))) = (tasks st, length (tasks st))"
proof -
  have "snd (create_task now req st) = st"
    using assms by (auto simp: create_task_def split: sum.splits if_splits)
  then show ?thesis
    by (simp add: get_tasks_def)
qed

theorem create_task_failure_keeps_store_witness:
  "fst (create_task ''2024-05-01T12:00:00'' (Json (JObj [(''description'', JStr ''x'')])) initial_store)
     = Inl (ValidationError ''Title is required'')
   \<and> snd (create_task ''2024-05-01T12:00:00'' (Json (JObj [(''description'', JStr ''x'')])) initial_store)
     = initial_store
   \<and> snd (fst (get_tasks
        (snd (create_task ''2024-05-01T12:00:00'' (Json (JObj [(''description'', JStr ''x'')]))
           initial_store)))) = 2"
proof -
  have h: "fst (create_task ''2024-05-01T12:00:00'' (Json (JObj [(''description'', JStr ''x'')]))
             initial_store) = Inl (ValidationError ''Title is required'')"
    by (simp add: create_task_def title_missing_def)
  have "length (tasks initial_store) = 2"
    by (simp add: initial_store_def)
  then show ?thesis
    using h create_task_failure_keeps_store [OF h] by (simp add: get_tasks_def)
qed

text \<open>
  C10. No payload makes create answer "Title cannot be empty", in particular none whose
  title is a string: once the title-required check has let a payload through, the length
  test that guards that answer is false (or raises), so the branch is never taken.
\<close>

theorem create_task_never_title_cannot_be_empty:
  "fst (create_task now req st) \<noteq> Inl (ValidationError ''Title cannot be empty'')
   \<and> (title_missing data = Inr False \<longrightarrow> title_too_short data \<noteq> Inr True)"
proof -
  have "fst (create_task now req st) \<noteq> Inl (ValidationError ''Title cannot be empty'')"
  proof (cases req)
    case (Json d)
    then show ?thesis
      using title_guard_dead [of d]
      by (auto simp: create_task_def split: sum.splits if_splits)
  qed (simp_all add: create_task_def)
  then show ?thesis
    using title_guard_dead [of data] by simp
qed

theorem create_task_never_title_cannot_be_empty_witness:
  "title_missing (JObj [(''title'', JStr ''A'')]) = Inr False
   \<and> title_too_short (JObj [(''title'', JStr ''A'')]) = Inr False
   \<and> fst (create_task ''2024-05-01T12:00:00'' (Json (JObj [(''title'', JStr '''')])) initial_store)
       \<noteq> Inl (ValidationError ''Title cannot be empty'')"
  using create_task_never_title_cannot_be_empty
          [of "''2024-05-01T12:00:00''" "Json (JObj [(''title'', JStr '''')])" initial_store
              "JObj [(''title'', JStr ''A'')]"]
  by (simp add: title_missing_def title_too_short_def)

section \<open>Updating a task\<close>


text \<open>
  C4. When no stored task has the requested id, update answers NotFound with that id and
  leaves the store alone, whatever the payload is (none at all, an empty title, a
  non-boolean completed): the search for the task comes before the payload is decoded
  or looked at.
\<close>

theorem update_task_not_found_first:
  assumes "\<forall>t\<in>set (tasks st). task_id t \<noteq> tid"
  shows "update_task tid req st = (Inl (NotFound tid), st)"
  using assms by (simp add: update_task_def lookup_task_None [symmetric])

theorem update_task_not_found_first_witness:
  "map task_id (tasks initial_store) = [1, 2]
   \<and> update_task 7 Not_json initial_store = (Inl (NotFound 7), initial_store)
   \<and> update_task 7 Unparsable initial_store = (Inl (NotFound 7), initial_store)
   \<and> update_task 7 (Json JNull) initial_store = (Inl (NotFound 7), initial_store)
   \<and> update_task 7 (Json (JObj [(''title'', JStr '''')])) initial_store
       = (Inl (NotFound 7), initial_store)
   \<and> update_task 7 (Json (JObj [(''completed'', JStr ''yes'')])) initial_store
       = (Inl (NotFound 7), initial_store)"
proof -
  have h: "\<forall>t\<in>set (tasks initial_store). task_id t \<noteq> 7"
    by (simp add: initial_store_def)
  have "map task_id (tasks initial_store) = [1, 2]"
    by (simp add: initial_store_def)
  then show ?thesis
    using update_task_not_found_first [OF h, of Not_json]
      update_task_not_found_first [OF h, of Unparsable]
      update_task_not_found_first [OF h, of "Json JNull"]
      update_task_not_found_first [OF h, of "Json (JObj [(''title'', JStr '''')])"]
      update_task_not_found_first [OF h, of "Json (JObj [(''completed'', JStr ''yes'')])"]
    by simp
qed


lemma write_back_split:
  "find (\<lambda>x. task_id x = tid) ts = Some t \<Longrightarrow>
   \<exists>pre post. ts = pre @ t # post \<and> (\<forall>x\<in>set pre. task_id x \<noteq> tid) \<and> task_id t = tid
      \<and> write_back tid t' ts = pre @ t' # post"
proof (induction ts)
  case Nil
  then show ?case by simp
next
  case (Cons a ts)
  show ?case
  proof (cases "task_id a = tid")
    case True
    with Cons.prems have "a = t" by simp
    with True have "a # ts = [] @ t # ts \<and> (\<forall>x\<in>set []. task_id x \<noteq> tid) \<and> task_id t = tid
        \<and> write_back tid t' (a # ts) = [] @ t' # ts"
      by simp
    then show ?thesis by blast
  next
    case False
    with Cons.prems have "find (\<lambda>x. task_id x = tid) ts = Some t" by simp
    from Cons.IH [OF this] obtain pre post where
      "ts = pre @ t # post" "\<forall>x\<in>set pre. task_id x \<noteq> tid" "task_id t = tid"
      "write_back tid t' ts = pre @ t' # post"
      by blast
    with False have "a # ts = (a # pre) @ t # post \<and> (\<forall>x\<in>set (a # pre). task_id x \<noteq> tid)
        \<and> task_id t = tid \<and> write_back tid t' (a # ts) = (a # pre) @ t' # post"
      by simp
    then show ?thesis by blast
  qed
qed

lemma set_title_frame:
  "set_title data t = Inr t' \<Longrightarrow>
     task_id t' = task_id t \<and> created_at t' = created_at t
     \<and> description t' = description t \<and> completed t' = completed t
     \<and> (if py_contains ''title'' data = Inr True
         then py_getitem data ''title'' = Inr (title t') \<and> truthy (title t')
         else title t' = title t)"
  by (auto simp: set_title_def split: sum.splits if_splits)

lemma set_description_frame:
  "set_description data t = Inr t' \<Longrightarrow>
     task_id t' = task_id t \<and> created_at t' = created_at t
     \<and> title t' = title t \<and> completed t' = completed t
     \<and> (if py_contains ''description'' data = Inr True
         then py_getitem data ''description'' = Inr (description t')
         else description t' = description t)"
  by (auto simp: set_description_def split: sum.splits if_splits)

lemma set_completed_frame:
  "set_completed data t = Inr t' \<Longrightarrow>
     task_id t' = task_id t \<and> created_at t' = created_at t
     \<and> title t' = title t \<and> description t' = description t
     \<and> (if py_contains ''completed'' data = Inr True
         then py_getitem data ''completed'' = Inr (completed t') \<and> isinstance_bool (completed t')
         else completed t' = completed t)"
  by (auto simp: set_completed_def split: sum.splits if_splits)

lemma update_fields_ids:
  "update_fields data t = (r, t') \<Longrightarrow> task_id t' = task_id t \<and> created_at t' = created_at t"
  by (auto simp: update_fields_def split: sum.splits
           dest!: set_title_frame set_description_frame set_completed_frame)

lemma update_fields_success:
  assumes "update_fields data t = (None, t')"
  shows "task_id t' = task_id t \<and> created_at t' = created_at t
     \<and> (if py_contains ''title'' data = Inr True
         then py_getitem data ''title'' = Inr (title t') else title t' = title t)
     \<and> (if py_contains ''description'' data = Inr True
         then py_getitem data ''description'' = Inr (description t')
         else description t' = description t)
     \<and> (if py_contains ''completed'' data = Inr True
         then py_getitem data ''completed'' = Inr (completed t')
         else completed t' = completed t)"
proof -
  from assms obtain t1 t2 where
    s1: "set_title data t = Inr t1" and s2: "set_description data t1 = Inr t2"
    and s3: "set_completed data t2 = Inr t'"
    by (auto simp: update_fields_def split: sum.splits)
  from set_title_frame [OF s1] set_description_frame [OF s2] set_completed_frame [OF s3]
  show ?thesis by (simp split: if_splits)
qed

text \<open>
  C6. When update succeeds, the payload has parsed to a value, and the task that update
  returns is the stored task with that id (the first one in the list) with the same id
  and created_at; each of title, description and
  completed is the payload's value if the payload has the key and the old value if not;
  the list afterwards is the list before with that one task replaced, every other task
  and the counter being as they were.
\<close>

theorem update_task_frame:
  assumes "update_task tid req st = (Inr t', st')"
  shows "\<exists>data t pre post.
       req = Json data
     \<and> tasks st = pre @ t # post \<and> (\<forall>x\<in>set pre. task_id x \<noteq> tid) \<and> task_id t = tid
     \<and> tasks st' = pre @ t' # post \<and> task_counter st' = task_counter st
     \<and> task_id t' = tid \<and> created_at t' = created_at t
     \<and> (if py_contains ''title'' data = Inr True
         then py_getitem data ''title'' = Inr (title t') else title t' = title t)
     \<and> (if py_contains ''description'' data = Inr True
         then py_getitem data ''description'' = Inr (description t')
         else description t' = description t)
     \<and> (if py_contains ''completed'' data = Inr True
         then py_getitem data ''completed'' = Inr (completed t')
         else completed t' = completed t)"
proof -
  from assms obtain t data where
    f: "find (\<lambda>x. task_id x = tid) (tasks st) = Some t"
    and j: "req = Json data"
    and u: "update_fields data t = (None, t')"
    and s: "st' = st\<lparr>tasks := write_back tid t' (tasks st)\<rparr>"
    by (cases req)
       (auto simp: update_task_def lookup_task_def split: option.splits if_splits prod.splits)
  from write_back_split [OF f, of t'] obtain pre post where
    p: "tasks st = pre @ t # post" "\<forall>x\<in>set pre. task_id x \<noteq> tid" "task_id t = tid"
       "write_back tid t' (tasks st) = pre @ t' # post"
    by blast
  from update_fields_success [OF u] p s j show ?thesis
    by (intro exI [of _ data] exI [of _ t] exI [of _ pre] exI [of _ post]) simp
qed

theorem update_task_frame_witness:
  "update_task 1 (Json (JObj [(''description'', JStr ''New description'')])) initial_store
     = (Inr \<lparr>task_id = 1, title = JStr ''Setup CI/CD Pipeline'',
             description = JStr ''New description'',
             completed = JBool False, created_at = ''2024-01-15T10:00:00Z''\<rparr>,
        \<lparr>tasks =
          [\<lparr>task_id = 1, title = JStr ''Setup CI/CD Pipeline'',
            description = JStr ''New description'',
            completed = JBool False, created_at = ''2024-01-15T10:00:00Z''\<rparr>,
           \<lparr>task_id = 2, title = JStr ''Write Unit Tests'',
            description = JStr ''Create comprehensive test suite'',
            completed = JBool False, created_at = ''2024-01-15T11:00:00Z''\<rparr>],
         task_counter = 3\<rparr>)
   \<and> (\<exists>t pre post. tasks initial_store = pre @ t # post \<and> task_id t = 1
         \<and> created_at t = ''2024-01-15T10:00:00Z'' \<and> title t = JStr ''Setup CI/CD Pipeline''
         \<and> completed t = JBool False)"
proof -
  have h: "update_task 1 (Json (JObj [(''description'', JStr ''New description'')])) initial_store
     = (Inr \<lparr>task_id = 1, title = JStr ''Setup CI/CD Pipeline'',
             description = JStr ''New description'',
             completed = JBool False, created_at = ''2024-01-15T10:00:00Z''\<rparr>,
        \<lparr>tasks =
          [\<lparr>task_id = 1, title = JStr ''Setup CI/CD Pipeline'',
            description = JStr ''New description'',
            completed = JBool False, created_at = ''2024-01-15T10:00:00Z''\<rparr>,
           \<lparr>task_id = 2, title = JStr ''Write Unit Tests'',
            description = JStr ''Create comprehensive test suite'',
            completed = JBool False, created_at = ''2024-01-15T11:00:00Z''\<rparr>],
         task_counter = 3\<rparr>)"
    by (simp add: update_task_def lookup_task_def initial_store_def update_fields_def
          set_title_def set_description_def set_completed_def)
  from update_task_frame [OF h] obtain t pre post where
    "tasks initial_store = pre @ t # post" "task_id t = 1"
    "created_at t = ''2024-01-15T10:00:00Z''" "title t = JStr ''Setup CI/CD Pipeline''"
    "completed t = JBool False"
    by auto
  then have "\<exists>t pre post. tasks initial_store = pre @ t # post \<and> task_id t = 1
         \<and> created_at t = ''2024-01-15T10:00:00Z'' \<and> title t = JStr ''Setup CI/CD Pipeline''
         \<and> completed t = JBool False"
    by blast
  with h show ?thesis by simp
qed

lemma lookup_write_back:
  "find (\<lambda>x. task_id x = tid) ts = Some t \<Longrightarrow> task_id t' = tid \<Longrightarrow>
   find (\<lambda>x. task_id x = tid) (write_back tid t' ts) = Some t'"
  by (induction ts) (auto split: if_splits)

lemma find_task_id: "find (\<lambda>x. task_id x = tid) ts = Some t \<Longrightarrow> task_id t = tid"
  by (induction ts) (auto split: if_splits)

text \<open>
  C3, as the claim states it, fails: a payload can supply a non-boolean completed and an
  empty title as well; the title block comes first, so update answers "Title cannot be
  empty" and changes nothing.
\<close>

theorem update_empty_title_counterexample:
  "update_task 1 (Json (JObj [(''title'', JStr ''''), (''completed'', JStr ''yes'')])) initial_store
     = (Inl (ValidationError ''Title cannot be empty''), initial_store)"
  by (simp add: update_task_def lookup_task_def initial_store_def update_fields_def set_title_def)

text \<open>
  C3, amended. For a stored task and an object payload that supplies a non-boolean
  completed and whose title, if supplied, is non-empty, update answers "Completed must be
  a boolean"; the stored completed is as before, while the supplied title and the
  supplied description have already been written to the stored task.
\<close>

theorem update_task_bad_completed:
  assumes "lookup_task tid st = Some t"
    and "map_of kvs ''completed'' = Some c" and "\<not> isinstance_bool c"
    and "(case map_of kvs ''title'' of None \<Rightarrow> True | Some v \<Rightarrow> truthy v)"
  shows "fst (update_task tid (Json (JObj kvs)) st) = Inl (ValidationError ''Completed must be a boolean'')
     \<and> lookup_task tid (snd (update_task tid (Json (JObj kvs)) st))
         = Some (t\<lparr>title := (case map_of kvs ''title'' of None \<Rightarrow> title t | Some v \<Rightarrow> v),
                   description := (case map_of kvs ''description'' of None \<Rightarrow> description t | Some d \<Rightarrow> d)\<rparr>)
     \<and> completed (t\<lparr>title := (case map_of kvs ''title'' of None \<Rightarrow> title t | Some v \<Rightarrow> v),
                   description := (case map_of kvs ''description'' of None \<Rightarrow> description t | Some d \<Rightarrow> d)\<rparr>)
         = completed t"
proof -
  let ?t' = "t\<lparr>title := (case map_of kvs ''title'' of None \<Rightarrow> title t | Some v \<Rightarrow> v),
               description := (case map_of kvs ''description'' of None \<Rightarrow> description t | Some d \<Rightarrow> d)\<rparr>"
  have kv: "kvs \<noteq> []" using assms(2) by auto
  have f: "find (\<lambda>x. task_id x = tid) (tasks st) = Some t"
    using assms(1) by (simp add: lookup_task_def)
  have id: "task_id ?t' = tid"
    using find_task_id [OF f] by simp
  have u: "update_fields (JObj kvs) t = (Some (ValidationError ''Completed must be a boolean''), ?t')"
    using assms(2,3,4)
    by (auto simp: update_fields_def set_title_def set_description_def set_completed_def
             split: option.splits)
  have r: "update_task tid (Json (JObj kvs)) st
      = (Inl (ValidationError ''Completed must be a boolean''),
         st\<lparr>tasks := write_back tid ?t' (tasks st)\<rparr>)"
    using assms(1) kv u by (simp add: update_task_def)
  show ?thesis
    using r lookup_write_back [OF f id] by (simp add: lookup_task_def)
qed

theorem update_task_bad_completed_witness:
  "fst (update_task 1 (Json (JObj [(''title'', JStr ''T''), (''description'', JStr ''D''),
          (''completed'', JStr ''yes'')])) initial_store)
     = Inl (ValidationError ''Completed must be a boolean'')
   \<and> lookup_task 1 (snd (update_task 1 (Json (JObj [(''title'', JStr ''T''), (''description'', JStr ''D''),
          (''completed'', JStr ''yes'')])) initial_store))
     = Some \<lparr>task_id = 1, title = JStr ''T'', description = JStr ''D'',
             completed = JBool False, created_at = ''2024-01-15T10:00:00Z''\<rparr>"
proof -
  have h: "lookup_task 1 initial_store
     = Some \<lparr>task_id = 1, title = JStr ''Setup CI/CD Pipeline'',
          description = JStr ''Configure GitHub Actions'',
          completed = JBool False, created_at = ''2024-01-15T10:00:00Z''\<rparr>"
    by (simp add: lookup_task_def initial_store_def)
  show ?thesis
    using update_task_bad_completed [OF h, of "[(''title'', JStr ''T''), (''description'', JStr ''D''),
          (''completed'', JStr ''yes'')]" "JStr ''yes''"]
    by simp
qed

section \<open>Sequences of requests keep the invariant\<close>

lemma find_in_set: "find P ts = Some t \<Longrightarrow> t \<in> set ts"
  by (induction ts) (auto split: if_splits)

lemma map_id_write_back:
  "task_id t' = tid \<Longrightarrow> map task_id (write_back tid t' ts) = map task_id ts"
  by (induction ts) auto

lemma length_write_back: "length (write_back tid t' ts) = length ts"
  by (induction ts) auto

lemma length_filter_distinct:
  "distinct (map f xs) \<Longrightarrow> x \<in> set xs \<Longrightarrow>
   Suc (length (filter (\<lambda>y. f y \<noteq> f x) xs)) = length xs"
proof (induction xs)
  case Nil
  then show ?case by simp
next
  case (Cons a xs)
  show ?case
  proof (cases "f a = f x")
    case True
    with Cons.prems have "\<forall>y\<in>set xs. f y \<noteq> f x" by (auto simp: image_iff)
    then have "filter (\<lambda>y. f y \<noteq> f x) xs = xs" by (simp add: filter_id_conv)
    with True show ?thesis by simp
  next
    case False
    with Cons.prems have "x \<in> set xs" by auto
    with Cons.IH Cons.prems False show ?thesis by simp
  qed
qed

lemma create_task_inv:
  assumes "store_inv st" and "create_task now req st = (r, st')"
  shows "store_inv st'
     \<and> (case r of
           Inl e \<Rightarrow> st' = st
         | Inr t \<Rightarrow> task_id t = task_counter st \<and> task_counter st' = task_counter st + 1
                    \<and> length (tasks st') = Suc (length (tasks st)))"
proof (cases r)
  case (Inl e)
  with assms show ?thesis
    by (auto simp: create_task_def split: sum.splits if_splits)
next
  case (Inr t)
  with assms(2) have s: "st' = st\<lparr>tasks := tasks st @ [t], task_counter := task_counter st + 1\<rparr>"
    and i: "task_id t = task_counter st"
    by (auto simp: create_task_def new_task_def split: sum.splits if_splits)
  have "\<forall>x\<in>set (tasks st). task_id x < task_counter st"
    using assms(1) by (simp add: store_inv_def)
  then have "store_inv st'"
    using assms(1) s i by (fastforce simp: store_inv_def)
  with Inr s i show ?thesis by simp
qed

lemma update_task_inv:
  assumes "store_inv st" and "update_task tid req st = (r, st')"
  shows "store_inv st' \<and> task_counter st' = task_counter st
     \<and> length (tasks st') = length (tasks st)"
proof (cases "lookup_task tid st")
  case None
  with assms show ?thesis by (simp add: update_task_def)
next
  case (Some t)
  then have f: "find (\<lambda>x. task_id x = tid) (tasks st) = Some t"
    by (simp add: lookup_task_def)
  show ?thesis
  proof (cases "case get_json req of Inl x \<Rightarrow> False | Inr data \<Rightarrow> truthy data")
    case False
    with Some assms show ?thesis by (auto simp: update_task_def split: sum.splits)
  next
    case True
    then obtain data where g: "get_json req = Inr data" and tr: "truthy data"
      by (auto split: sum.splits)
    obtain e t' where u: "update_fields data t = (e, t')" by (cases "update_fields data t")
    with update_fields_ids [OF u] find_task_id [OF f] have id: "task_id t' = tid" by simp
    from Some g tr u assms(2) have s: "st' = st\<lparr>tasks := write_back tid t' (tasks st)\<rparr>"
      by (cases e) (auto simp: update_task_def)
    have "map task_id (tasks st') = map task_id (tasks st)"
      using s map_id_write_back [OF id] by simp
    moreover have "task_counter st' = task_counter st" using s by simp
    moreover have "length (tasks st') = length (tasks st)"
      using s by (simp add: length_write_back)
    moreover have "set (map task_id (tasks st')) = set (map task_id (tasks st))"
      using calculation(1) by simp
    ultimately show ?thesis
      using assms(1) unfolding store_inv_def
      by (metis (no_types, lifting) image_iff list.set_map)
  qed
qed

lemma delete_task_inv:
  assumes "store_inv st" and "delete_task tid st = (r, st')"
  shows "store_inv st' \<and> task_counter st' = task_counter st
     \<and> (case r of
           Inl e \<Rightarrow> st' = st
         | Inr i \<Rightarrow> Suc (length (tasks st')) = length (tasks st))"
proof (cases "lookup_task tid st")
  case None
  with assms show ?thesis by (auto simp: delete_task_def)
next
  case (Some t)
  then have f: "find (\<lambda>x. task_id x = tid) (tasks st) = Some t"
    by (simp add: lookup_task_def)
  from Some assms(2) have s: "st' = st\<lparr>tasks := filter (\<lambda>x. task_id x \<noteq> tid) (tasks st)\<rparr>"
    and r: "r = Inr tid"
    by (auto simp: delete_task_def)
  have d: "distinct (map task_id (tasks st))" using assms(1) by (simp add: store_inv_def)
  have "Suc (length (filter (\<lambda>y. task_id y \<noteq> task_id t) (tasks st))) = length (tasks st)"
    using length_filter_distinct [OF d find_in_set [OF f]] .
  then have l: "Suc (length (tasks st')) = length (tasks st)"
    using s find_task_id [OF f] by simp
  have "store_inv st'"
    using assms(1) s by (auto simp: store_inv_def distinct_map_filter)
  with l s r show ?thesis by simp
qed


lemma initial_store_inv: "store_inv initial_store"
  by (simp add: store_inv_def initial_store_def)

lemma handle_inv:
  assumes "store_inv st" and "handle r st = (a, st')"
  shows "store_inv st' \<and> task_counter st \<le> task_counter st'
     \<and> (case a of Created t \<Rightarrow> task_id t = task_counter st \<and> task_counter st < task_counter st'
          | _ \<Rightarrow> True)
     \<and> length (tasks st') + (if is_deleted a then 1 else 0)
         = length (tasks st) + (if is_created a then 1 else 0)"
proof (cases r)
  case List_tasks
  with assms show ?thesis by (auto simp: get_tasks_def)
next
  case (Get tid)
  with assms show ?thesis by (auto simp: get_task_def split: option.splits)
next
  case (Create now req)
  obtain x s where c: "create_task now req st = (x, s)" by (cases "create_task now req st")
  from create_task_inv [OF assms(1) c] c Create assms(2) show ?thesis
    by (cases x) auto
next
  case (Update tid req)
  obtain x s where c: "update_task tid req st = (x, s)" by (cases "update_task tid req st")
  from update_task_inv [OF assms(1) c] c Update assms(2) show ?thesis
    by (cases x) auto
next
  case (Delete tid)
  obtain x s where c: "delete_task tid st = (x, s)" by (cases "delete_task tid st")
  from delete_task_inv [OF assms(1) c] c Delete assms(2) show ?thesis
    by (cases x) auto
qed

lemma serve_inv:
  "store_inv st \<Longrightarrow> serve rs st = (as, st') \<Longrightarrow>
     store_inv st' \<and> task_counter st \<le> task_counter st'
     \<and> distinct (created_ids as)
     \<and> (\<forall>i\<in>set (created_ids as). task_counter st \<le> i \<and> i < task_counter st')
     \<and> length (tasks st') + length (filter is_deleted as)
         = length (tasks st) + length (filter is_created as)"
proof (induction rs arbitrary: st as st')
  case Nil
  then show ?case by simp
next
  case (Cons r rs)
  obtain a s1 where h: "handle r st = (a, s1)" by (cases "handle r st")
  obtain bs s2 where t: "serve rs s1 = (bs, s2)" by (cases "serve rs s1")
  from Cons.prems(2) h t have e: "as = a # bs" "st' = s2" by simp_all
  note H = handle_inv [OF Cons.prems(1) h]
  from H have i1: "store_inv s1" by simp
  note T = Cons.IH [OF i1 t]
  have c: "task_counter st \<le> task_counter s2" using H T by simp
  have l: "length (tasks s2) + length (filter is_deleted (a # bs))
         = length (tasks st) + length (filter is_created (a # bs))"
    using H T by (simp split: if_splits)
  have b: "\<forall>i\<in>set (created_ids bs). task_counter st \<le> i \<and> i < task_counter s2"
    using H T by fastforce
  have d: "distinct (created_ids (a # bs))
      \<and> (\<forall>i\<in>set (created_ids (a # bs)). task_counter st \<le> i \<and> i < task_counter s2)"
  proof (cases a)
    case (Created x)
    with H have "task_id x = task_counter st" "task_counter st < task_counter s1" by simp_all
    moreover from T have "\<forall>i\<in>set (created_ids bs). task_counter s1 \<le> i" by simp
    ultimately have "task_id x \<notin> set (created_ids bs)" "task_id x < task_counter s2"
      using T by fastforce+
    with Created T b \<open>task_id x = task_counter st\<close> show ?thesis by simp
  qed (use T b in simp_all)
  from T c l d e show ?case by simp
qed

section \<open>Deleting a task\<close>

text \<open>
  C7. In every store that the seeded store can reach by serving requests: when no task
  has the id, delete answers NotFound with that id and changes nothing; when one has, the
  list is some tasks, that task, and some more tasks, none of the others having the id;
  delete succeeds, the list afterwards is the others in their order, and a get of the
  same id on the new store answers NotFound.
\<close>

theorem delete_task_removes_one:
  assumes "serve rs initial_store = (as, st)"
  shows "if tid \<in> set (map task_id (tasks st))
         then \<exists>t pre post.
                tasks st = pre @ t # post \<and> task_id t = tid
              \<and> tid \<notin> set (map task_id (pre @ post))
              \<and> delete_task tid st = (Inr tid, st\<lparr>tasks := pre @ post\<rparr>)
              \<and> get_task tid (st\<lparr>tasks := pre @ post\<rparr>)
                  = (Inl (NotFound tid), st\<lparr>tasks := pre @ post\<rparr>)
         else delete_task tid st = (Inl (NotFound tid), st)"
proof (cases "lookup_task tid st")
  case None
  then have "tid \<notin> set (map task_id (tasks st))"
    by (auto simp: lookup_task_None)
  with None show ?thesis by (simp add: delete_task_def)
next
  case (Some t)
  then have f: "find (\<lambda>x. task_id x = tid) (tasks st) = Some t"
    by (simp add: lookup_task_def)
  from write_back_split [OF f, of t] obtain pre post where
    p: "tasks st = pre @ t # post" and i: "task_id t = tid"
    by blast
  have "distinct (map task_id (tasks st))"
    using serve_inv [OF initial_store_inv assms] by (simp add: store_inv_def)
  with p i have n: "tid \<notin> set (map task_id (pre @ post))"
    by auto
  then have a: "\<forall>x\<in>set (pre @ post). task_id x \<noteq> tid" by auto
  then have fl: "filter (\<lambda>x. task_id x \<noteq> tid) (pre @ post) = pre @ post"
    by (simp only: filter_id_conv)
  have "filter (\<lambda>x. task_id x \<noteq> tid) (tasks st) = pre @ post"
    using fl p i by simp
  with Some have d: "delete_task tid st = (Inr tid, st\<lparr>tasks := pre @ post\<rparr>)"
    by (simp add: delete_task_def)
  have "lookup_task tid (st\<lparr>tasks := pre @ post\<rparr>) = None"
    using a by (simp add: lookup_task_None)
  then have g: "get_task tid (st\<lparr>tasks := pre @ post\<rparr>)
                  = (Inl (NotFound tid), st\<lparr>tasks := pre @ post\<rparr>)"
    by (simp add: get_task_def)
  have m: "tid \<in> set (map task_id (tasks st))" using p i by simp
  from p i n d g have "\<exists>t pre post.
                tasks st = pre @ t # post \<and> task_id t = tid
              \<and> tid \<notin> set (map task_id (pre @ post))
              \<and> delete_task tid st = (Inr tid, st\<lparr>tasks := pre @ post\<rparr>)
              \<and> get_task tid (st\<lparr>tasks := pre @ post\<rparr>)
                  = (Inl (NotFound tid), st\<lparr>tasks := pre @ post\<rparr>)"
    by blast
  with m show ?thesis by simp
qed

theorem delete_task_removes_one_witness:
  "serve [Delete 2] initial_store
     = ([Deleted 2],
        \<lparr>tasks = [\<lparr>task_id = 1, title = JStr ''Setup CI/CD Pipeline'',
                    description = JStr ''Configure GitHub Actions'',
                    completed = JBool False, created_at = ''2024-01-15T10:00:00Z''\<rparr>],
         task_counter = 3\<rparr>)
   \<and> delete_task 1
        \<lparr>tasks = [\<lparr>task_id = 1, title = JStr ''Setup CI/CD Pipeline'',
                    description = JStr ''Configure GitHub Actions'',
                    completed = JBool False, created_at = ''2024-01-15T10:00:00Z''\<rparr>],
         task_counter = 3\<rparr>
     = (Inr 1, \<lparr>tasks = [], task_counter = 3\<rparr>)
   \<and> get_task 1 \<lparr>tasks = [], task_counter = 3\<rparr>
     = (Inl (NotFound 1), \<lparr>tasks = [], task_counter = 3\<rparr>)
   \<and> delete_task 2
        \<lparr>tasks = [\<lparr>task_id = 1, title = JStr ''Setup CI/CD Pipeline'',
                    description = JStr ''Configure GitHub Actions'',
                    completed = JBool False, created_at = ''2024-01-15T10:00:00Z''\<rparr>],
         task_counter = 3\<rparr>
     = (Inl (NotFound 2),
        \<lparr>tasks = [\<lparr>task_id = 1, title = JStr ''Setup CI/CD Pipeline'',
                    description = JStr ''Configure GitHub Actions'',
                    completed = JBool False, created_at = ''2024-01-15T10:00:00Z''\<rparr>],
         task_counter = 3\<rparr>)"
proof -
  have h: "serve [Delete 2] initial_store
     = ([Deleted 2],
        \<lparr>tasks = [\<lparr>task_id = 1, title = JStr ''Setup CI/CD Pipeline'',
                    description = JStr ''Configure GitHub Actions'',
                    completed = JBool False, created_at = ''2024-01-15T10:00:00Z''\<rparr>],
         task_counter = 3\<rparr>)"
    by (simp add: delete_task_def lookup_task_def initial_store_def)
  show ?thesis
    using h delete_task_removes_one [OF h, of 1] delete_task_removes_one [OF h, of 2]
    by (simp add: get_task_def lookup_task_def delete_task_def)
qed

section \<open>Ids and counts over a run\<close>

text \<open>
  C2. For every sequence of requests served from the seeded store, the ids of the seed
  tasks and the ids handed out by the successful creates are pairwise distinct, whatever
  was deleted in between: no id is handed out twice.
\<close>

theorem ids_never_reused:
  "distinct (map task_id (tasks initial_store) @ created_ids (fst (serve rs initial_store)))"
proof -
  obtain as st where s: "serve rs initial_store = (as, st)" by (cases "serve rs initial_store")
  from serve_inv [OF initial_store_inv s]
  have "distinct (created_ids as)" "\<forall>i\<in>set (created_ids as). 3 \<le> i"
    by (simp_all add: initial_store_def)
  then show ?thesis
    using s by (fastforce simp: initial_store_def)
qed

theorem ids_never_reused_witness:
  "map task_id (tasks initial_store)
     @ created_ids (fst (serve
         [Create ''2024-05-01T12:00:00'' (Json (JObj [(''title'', JStr ''A'')])),
          Delete 1,
          Get 1,
          List_tasks,
          Create ''2024-05-01T12:00:05'' (Json (JObj [(''title'', JStr ''B'')]))]
         initial_store))
   = [1, 2, 3, 4]"
  using ids_never_reused
     [of "[Create ''2024-05-01T12:00:00'' (Json (JObj [(''title'', JStr ''A'')])),
          Delete 1,
          Get 1,
          List_tasks,
          Create ''2024-05-01T12:00:05'' (Json (JObj [(''title'', JStr ''B'')]))]"]
  by (simp add: initial_store_def create_task_def title_missing_def title_too_short_def
        new_task_def delete_task_def get_task_def get_tasks_def lookup_task_def)

text \<open>
  C9. Listing has no error answer; it returns the stored tasks in the order of the list
  with their number as the count, and it returns the store as it got it. After any
  sequence of requests served from the seeded store, the count is the initial count plus
  the number of successful creates minus the number of successful deletes.
\<close>

theorem get_tasks_count:
  "fst (get_tasks st) = (tasks st, length (tasks st)) \<and> snd (get_tasks st) = st
   \<and> int (snd (fst (get_tasks (snd (serve rs initial_store)))))
      = int (length (tasks initial_store))
        + int (length (filter is_created (fst (serve rs initial_store))))
        - int (length (filter is_deleted (fst (serve rs initial_store))))"
proof -
  obtain as s where s: "serve rs initial_store = (as, s)" by (cases "serve rs initial_store")
  from serve_inv [OF initial_store_inv s]
  have "length (tasks s) + length (filter is_deleted as)
         = length (tasks initial_store) + length (filter is_created as)"
    by simp
  then show ?thesis
    using s by (simp add: get_tasks_def)
qed

theorem get_tasks_count_witness:
  "snd (fst (get_tasks (snd (serve
         [Create ''2024-05-01T12:00:00'' (Json (JObj [(''title'', JStr ''A'')])),
          Delete 1,
          Delete 1,
          Create ''2024-05-01T12:00:05'' (Json (JObj [(''title'', JStr ''B'')]))]
         initial_store)))) = 3
   \<and> filter is_deleted (fst (serve
         [Create ''2024-05-01T12:00:00'' (Json (JObj [(''title'', JStr ''A'')])),
          Delete 1,
          Delete 1,
          Create ''2024-05-01T12:00:05'' (Json (JObj [(''title'', JStr ''B'')]))]
         initial_store)) = [Deleted 1]"
  using get_tasks_count
     [of initial_store
         "[Create ''2024-05-01T12:00:00'' (Json (JObj [(''title'', JStr ''A'')])),
          Delete 1,
          Delete 1,
          Create ''2024-05-01T12:00:05'' (Json (JObj [(''title'', JStr ''B'')]))]"]
  by (simp add: initial_store_def create_task_def title_missing_def title_too_short_def
        new_task_def delete_task_def get_tasks_def lookup_task_def)

end
